theory Spec2Isabelle
  imports Main "HOL-Library.Word"
begin

section \<open>The platform message header of the exp5438\_2520 platform\<close>

text \<open>
  The file \<^verbatim>\<open>tos/platforms/exp5438_2520/platform_message.h\<close> declares three types and
  nothing else: the union \<^verbatim>\<open>message_header_t\<close>, the union \<^verbatim>\<open>message_footer_t\<close> and the
  struct \<^verbatim>\<open>message_metadata_t\<close>. Two fields of the struct stand under \<^verbatim>\<open>#ifdef\<close>, and
  the whole file stands under the include guard \<^verbatim>\<open>PLATFORM_MESSAGE_H\<close>.

  The embedding has three layers.
  \<^item> The declared types are terms of \<open>ctype\<close>, written down field by field as in the header.
  \<^item> The preprocessor is explicit state passing: a translation unit carries the set of
    defined macros and the declarations made so far, and including the header is a
    function on it. The two collaborator headers \<^verbatim>\<open>Serial.h\<close> and \<^verbatim>\<open>CC2520Radio.h\<close> are not
    part of the file; they are parameters of that function.
  \<^item> Storage follows the layout rules of C for struct and union (members of a struct in
    declaration order, each at the next multiple of its alignment; all members of a union
    at offset 0; the size of either padded to its alignment). The sizes and alignments of
    the collaborators' types are parameters (\<open>target\<close>).
\<close>

subsection \<open>Types and declarations\<close>

type_synonym ident = string

text \<open>
  A type is the name of a type declared elsewhere, or a union or struct with an optional
  tag and a list of members. A member without a name is an anonymous union or struct,
  whose members count as members of the enclosing type.
\<close>

datatype ctype =
    TypeName ident
  | UnionT "ident option" "(ident option \<times> ctype) list"
  | StructT "ident option" "(ident option \<times> ctype) list"

text \<open>The external declarations a translation unit can hold.\<close>

datatype decl =
    Typedef ident ctype
  | ObjectDef ident ctype
  | FunctionDef ident

record tu =
  macros :: "ident set"
  decls :: "decl list"

fun is_union :: "ctype \<Rightarrow> bool" where
  "is_union (UnionT tag fs) = True"
| "is_union t = False"

fun is_struct :: "ctype \<Rightarrow> bool" where
  "is_struct (StructT tag fs) = True"
| "is_struct t = False"

fun field_decls :: "ctype \<Rightarrow> (ident option \<times> ctype) list" where
  "field_decls (TypeName n) = []"
| "field_decls (UnionT tag fs) = fs"
| "field_decls (StructT tag fs) = fs"

fun is_typedef :: "decl \<Rightarrow> bool" where
  "is_typedef (Typedef n t) = True"
| "is_typedef d = False"

fun decl_name :: "decl \<Rightarrow> ident" where
  "decl_name (Typedef n t) = n"
| "decl_name (ObjectDef n t) = n"
| "decl_name (FunctionDef n) = n"

subsection \<open>The header\<close>

abbreviation PLATFORM_MESSAGE_H :: ident where
  "PLATFORM_MESSAGE_H \<equiv> ''PLATFORM_MESSAGE_H''"

abbreviation LOW_POWER_LISTENING :: ident where
  "LOW_POWER_LISTENING \<equiv> ''LOW_POWER_LISTENING''"

abbreviation PACKET_LINK :: ident where
  "PACKET_LINK \<equiv> ''PACKET_LINK''"

text \<open>
  \<^verbatim>\<open>typedef union message_header {
    cc2520packet_header_t cc2520;
    serial_header_t serial;
  } message_header_t;\<close>
\<close>

definition message_header :: ctype where
  "message_header =
     UnionT (Some ''message_header'')
       [(Some ''cc2520'', TypeName ''cc2520packet_header_t''),
        (Some ''serial'', TypeName ''serial_header_t'')]"

text \<open>
  \<^verbatim>\<open>typedef union message_footer {
    cc2520packet_footer_t cc2520;
  } message_footer_t;\<close>
\<close>

definition message_footer :: ctype where
  "message_footer =
     UnionT (Some ''message_footer'')
       [(Some ''cc2520'', TypeName ''cc2520packet_footer_t'')]"

text \<open>
  The struct \<^verbatim>\<open>message_metadata\<close>, under the macros \<open>D\<close> defined where it is declared:
  the anonymous union, \<^verbatim>\<open>lpl_meta\<close> under \<^verbatim>\<open>#ifdef LOW_POWER_LISTENING\<close>, \<^verbatim>\<open>ts_meta\<close>,
  \<^verbatim>\<open>link_meta\<close> under \<^verbatim>\<open>#ifdef PACKET_LINK\<close>, \<^verbatim>\<open>flags_meta\<close>.
\<close>

definition meta_union :: ctype where
  "meta_union =
     UnionT None
       [(Some ''cc2520_meta'', TypeName ''cc2520_metadata_t''),
        (Some ''serial_meta'', TypeName ''serial_metadata_t'')]"

definition message_metadata :: "ident set \<Rightarrow> ctype" where
  "message_metadata D =
     StructT (Some ''message_metadata'')
       ([(None, meta_union)]
        @ (if LOW_POWER_LISTENING \<in> D
           then [(Some ''lpl_meta'', TypeName ''lpl_metadata_t'')] else [])
        @ [(Some ''ts_meta'', TypeName ''timestamp_metadata_t'')]
        @ (if PACKET_LINK \<in> D
           then [(Some ''link_meta'', TypeName ''link_metadata_t'')] else [])
        @ [(Some ''flags_meta'', TypeName ''flags_metadata_t'')])"

text \<open>
  Including the file. Under \<^verbatim>\<open>#ifndef PLATFORM_MESSAGE_H\<close> it defines the guard, includes
  \<^verbatim>\<open><Serial.h>\<close> and \<^verbatim>\<open>"CC2520Radio.h"\<close> (the parameters \<open>Serial_h\<close> and \<open>CC2520Radio_h\<close>),
  and declares the three types; the two \<^verbatim>\<open>#ifdef\<close> of the struct read the macros as they
  are after the includes. With the guard defined the file contributes nothing.
\<close>

definition platform_message_h :: "(tu \<Rightarrow> tu) \<Rightarrow> (tu \<Rightarrow> tu) \<Rightarrow> tu \<Rightarrow> tu" where
  "platform_message_h Serial_h CC2520Radio_h s =
     (if PLATFORM_MESSAGE_H \<in> macros s then s
      else
        let s1 = s\<lparr>macros := insert PLATFORM_MESSAGE_H (macros s)\<rparr>;
            s2 = Serial_h s1;
            s3 = CC2520Radio_h s2
        in s3\<lparr>decls := decls s3 @
              [Typedef ''message_header_t'' message_header,
               Typedef ''message_footer_t'' message_footer,
               Typedef ''message_metadata_t'' (message_metadata (macros s3))]\<rparr>)"

subsection \<open>Layout\<close>

text \<open>
  The size and the alignment of each type the collaborators declare. An alignment of 0
  or 1 asks for nothing.
\<close>

record target =
  size_of_name :: "ident \<Rightarrow> nat"
  align_of_name :: "ident \<Rightarrow> nat"

text \<open>The least multiple of \<open>a\<close> that is at least \<open>n\<close> (and \<open>n\<close> itself when \<open>a = 0\<close>).\<close>

definition pad_to :: "nat \<Rightarrow> nat \<Rightarrow> nat" where
  "pad_to a n = (if a dvd n then n else n + (a - n mod a))"

fun alignof :: "target \<Rightarrow> ctype \<Rightarrow> nat" where
  "alignof T (TypeName n) = align_of_name T n"
| "alignof T (UnionT tag fs) = foldr max (map (\<lambda>f. alignof T (snd f)) fs) 1"
| "alignof T (StructT tag fs) = foldr max (map (\<lambda>f. alignof T (snd f)) fs) 1"

text \<open>
  The end of the last member of a struct whose members have the given sizes and
  alignments, the first of them placed at or after \<open>off\<close>.
\<close>

fun struct_end :: "nat \<Rightarrow> (nat \<times> nat) list \<Rightarrow> nat" where
  "struct_end off [] = off"
| "struct_end off ((sz, al) # r) = struct_end (pad_to al off + sz) r"

fun sizeof :: "target \<Rightarrow> ctype \<Rightarrow> nat" where
  "sizeof T (TypeName n) = size_of_name T n"
| "sizeof T (UnionT tag fs) =
     pad_to (alignof T (UnionT tag fs)) (foldr max (map (\<lambda>f. sizeof T (snd f)) fs) 0)"
| "sizeof T (StructT tag fs) =
     pad_to (alignof T (StructT tag fs))
       (struct_end 0 (map (\<lambda>f. (sizeof T (snd f), alignof T (snd f))) fs))"

text \<open>
  The members that \<^verbatim>\<open>x.m\<close> can name, each with its offset and type. The members of an
  anonymous member are members of the enclosing type, at the anonymous member's offset.
\<close>

fun members :: "target \<Rightarrow> ctype \<Rightarrow> (ident \<times> nat \<times> ctype) list"
and union_members :: "target \<Rightarrow> (ident option \<times> ctype) list \<Rightarrow> (ident \<times> nat \<times> ctype) list"
and struct_members ::
  "target \<Rightarrow> nat \<Rightarrow> (ident option \<times> ctype) list \<Rightarrow> (ident \<times> nat \<times> ctype) list"
where
  "members T (TypeName n) = []"
| "members T (UnionT tag fs) = union_members T fs"
| "members T (StructT tag fs) = struct_members T 0 fs"
| "union_members T [] = []"
| "union_members T ((nm, t) # fs) =
     (case nm of Some n \<Rightarrow> [(n, 0, t)] | None \<Rightarrow> members T t) @ union_members T fs"
| "struct_members T off [] = []"
| "struct_members T off ((nm, t) # fs) =
     (let at = pad_to (alignof T t) off in
      (case nm of Some n \<Rightarrow> [(n, at, t)]
       | None \<Rightarrow> map (\<lambda>(n, k, u). (n, at + k, u)) (members T t))
      @ struct_members T (at + sizeof T t) fs)"

subsection \<open>Objects\<close>

text \<open>
  An object is its bytes. Reading a member gives the bytes at the member's offset;
  assigning to a member replaces them and leaves every other byte as it was. Both are
  defined for a member the type has and an object (and a value) of the right size.
\<close>

type_synonym byte = "8 word"

definition splice :: "nat \<Rightarrow> 'a list \<Rightarrow> 'a list \<Rightarrow> 'a list" where
  "splice off v obj = take off obj @ v @ drop (off + length v) obj"

definition read_member :: "target \<Rightarrow> ctype \<Rightarrow> ident \<Rightarrow> byte list \<Rightarrow> byte list option" where
  "read_member T t m obj =
     (case map_of (members T t) m of
        None \<Rightarrow> None
      | Some (off, u) \<Rightarrow>
          if length obj = sizeof T t then Some (take (sizeof T u) (drop off obj)) else None)"

definition write_member ::
  "target \<Rightarrow> ctype \<Rightarrow> ident \<Rightarrow> byte list \<Rightarrow> byte list \<Rightarrow> byte list option" where
  "write_member T t m v obj =
     (case map_of (members T t) m of
        None \<Rightarrow> None
      | Some (off, u) \<Rightarrow>
          if length obj = sizeof T t \<and> length v = sizeof T u
          then Some (splice off v obj) else None)"

subsection \<open>An example target\<close>

text \<open>
  Sizes and alignments chosen for the examples below: byte-packed transport structures
  and a timestamp block aligned to two bytes.
\<close>

definition example_target :: target where
  "example_target =
     \<lparr>size_of_name = (\<lambda>n.
         if n = ''cc2520packet_header_t'' then 11
         else if n = ''serial_header_t'' then 7
         else if n = ''cc2520packet_footer_t'' then 0
         else if n = ''cc2520_metadata_t'' then 3
         else if n = ''serial_metadata_t'' then 1
         else if n = ''lpl_metadata_t'' then 2
         else if n = ''timestamp_metadata_t'' then 4
         else if n = ''link_metadata_t'' then 4
         else if n = ''flags_metadata_t'' then 1
         else 0),
      align_of_name = (\<lambda>n. if n = ''timestamp_metadata_t'' then 2 else 1)\<rparr>"

text \<open>A collaborator header that declares one type and touches no macro.\<close>

definition example_include :: "ident \<Rightarrow> tu \<Rightarrow> tu" where
  "example_include n s = s\<lparr>decls := decls s @ [Typedef n (StructT (Some n) [])]\<rparr>"

section \<open>Layout facts\<close>

lemma pad_to_ge: "n \<le> pad_to a n"
  by (simp add: pad_to_def)

lemma le_pad_to: "m \<le> n \<Longrightarrow> m \<le> pad_to a n"
  using pad_to_ge [of n a] by simp

lemma pad_to_zero: "pad_to a 0 = 0"
  by (simp add: pad_to_def)

lemma pad_to_dvd: "a dvd n \<Longrightarrow> pad_to a n = n"
  by (simp add: pad_to_def)

lemma pad_to_eq: "0 < a \<Longrightarrow> \<not> a dvd n \<Longrightarrow> pad_to a n = Suc (n div a) * a"
proof -
  assume a: "0 < a" and "\<not> a dvd n"
  have "n mod a < a" using a by simp
  moreover have "n = n div a * a + n mod a" by simp
  ultimately have "n + (a - n mod a) = n div a * a + a"
    by linarith
  with \<open>\<not> a dvd n\<close> show ?thesis by (simp add: pad_to_def)
qed

lemma pad_to_multiple: "0 < a \<Longrightarrow> a dvd pad_to a n"
  by (cases "a dvd n") (simp_all add: pad_to_eq, simp add: pad_to_def)

lemma pad_to_least:
  assumes "0 < a" and "a dvd k" and "n \<le> k"
  shows "pad_to a n \<le> k"
proof (cases "a dvd n")
  case True
  with assms show ?thesis by (simp add: pad_to_def)
next
  case False
  from assms(2) obtain q where q: "k = a * q" ..
  have "n div a < q"
  proof (rule ccontr)
    assume "\<not> n div a < q"
    then have "q \<le> n div a" by simp
    then have "a * q \<le> a * (n div a)" by simp
    also have "\<dots> \<le> n" by simp
    finally have "k \<le> n" using q by simp
    with assms(3) have "n = k" by simp
    with assms(2) False show False by simp
  qed
  then have "Suc (n div a) \<le> q" by simp
  then have "Suc (n div a) * a \<le> q * a" by (rule mult_le_mono1)
  with q False assms(1) show ?thesis by (simp add: pad_to_eq mult.commute)
qed

lemma struct_end_ge: "off + sum_list (map fst ps) \<le> struct_end off ps"
proof (induction ps arbitrary: off)
  case Nil
  show ?case by simp
next
  case (Cons p ps)
  obtain sz al where p: "p = (sz, al)" by (cases p)
  have "off + sz \<le> pad_to al off + sz"
    by (simp add: pad_to_ge)
  with Cons.IH [of "pad_to al off + sz"] show ?case
    by (simp add: p)
qed

lemma foldr_max_ge: "x \<in> set xs \<Longrightarrow> x \<le> foldr max xs (b::nat)"
  by (induction xs) auto

lemma sizeof_struct_ge_sum:
  "sum_list (map (\<lambda>f. sizeof T (snd f)) fs) \<le> sizeof T (StructT tag fs)"
proof -
  let ?ps = "map (\<lambda>f. (sizeof T (snd f), alignof T (snd f))) fs"
  have "map fst ?ps = map (\<lambda>f. sizeof T (snd f)) fs"
    by simp
  with struct_end_ge [of 0 ?ps]
  have "sum_list (map (\<lambda>f. sizeof T (snd f)) fs) \<le> struct_end 0 ?ps"
    by (simp add: comp_def)
  then show ?thesis
    by (simp add: le_pad_to)
qed

lemma sizeof_union_ge_member:
  "f \<in> set fs \<Longrightarrow> sizeof T (snd f) \<le> sizeof T (UnionT tag fs)"
proof -
  assume "f \<in> set fs"
  then have "sizeof T (snd f) \<in> set (map (\<lambda>f. sizeof T (snd f)) fs)"
    by auto
  then have "sizeof T (snd f) \<le> foldr max (map (\<lambda>f. sizeof T (snd f)) fs) 0"
    by (rule foldr_max_ge)
  then show ?thesis
    by (simp add: le_pad_to)
qed

section \<open>Objects and members\<close>

lemma length_splice: "off + length v \<le> length obj \<Longrightarrow> length (splice off v obj) = length obj"
  by (simp add: splice_def)

lemma splice_same:
  "off + length v \<le> length obj \<Longrightarrow> take (length v) (drop off (splice off v obj)) = v"
  by (simp add: splice_def)

lemma splice_after:
  "off + length v \<le> off' \<Longrightarrow> off + length v \<le> length obj \<Longrightarrow>
   drop off' (splice off v obj) = drop off' obj"
  by (simp add: splice_def)

lemma splice_before:
  "off' + n \<le> off \<Longrightarrow> off \<le> length obj \<Longrightarrow>
   take n (drop off' (splice off v obj)) = take n (drop off' obj)"
proof -
  assume a: "off' + n \<le> off" and b: "off \<le> length obj"
  have "take n (drop off' (splice off v obj))
          = take n (drop off' (take off obj) @ drop (off' - off) (v @ drop (off + length v) obj))"
    using b by (simp add: splice_def)
  also have "\<dots> = take n (drop off' (take off obj))"
    using a b by simp
  also have "\<dots> = take n (take (off - off') (drop off' obj))"
    by (simp add: drop_take)
  also have "\<dots> = take n (drop off' obj)"
    using a by (simp add: min_def)
  finally show ?thesis .
qed

lemma write_then_read_same:
  assumes "map_of (members T t) m = Some (off, u)"
      and "off + sizeof T u \<le> sizeof T t"
      and "length obj = sizeof T t" and "length v = sizeof T u"
  shows "Option.bind (write_member T t m v obj) (read_member T t m) = Some v"
  using assms splice_same [of off v obj]
  by (simp add: write_member_def read_member_def length_splice)

lemma write_then_read_other:
  assumes "map_of (members T t) m = Some (off, u)"
      and "map_of (members T t) m' = Some (off', u')"
      and "off + sizeof T u \<le> off' \<or> off' + sizeof T u' \<le> off"
      and "off + sizeof T u \<le> sizeof T t"
      and "length obj = sizeof T t" and "length v = sizeof T u"
  shows "Option.bind (write_member T t m v obj) (read_member T t m') = read_member T t m' obj"
  using assms splice_after [of off v off' obj] splice_before [of off' "sizeof T u'" off obj v]
  by (auto simp add: write_member_def read_member_def length_splice)

lemma write_then_read_absent:
  assumes "map_of (members T t) m' = None"
  shows "Option.bind (write_member T t m v obj) (read_member T t m') = read_member T t m' obj"
  using assms by (cases "write_member T t m v obj") (simp_all add: read_member_def)

lemma members_message_header:
  "members T message_header =
     [(''cc2520'', 0, TypeName ''cc2520packet_header_t''),
      (''serial'', 0, TypeName ''serial_header_t'')]"
  by (simp add: message_header_def)

lemma members_message_footer:
  "members T message_footer = [(''cc2520'', 0, TypeName ''cc2520packet_footer_t'')]"
  by (simp add: message_footer_def)

lemma members_message_metadata:
  "members T (message_metadata D) =
     (let o1 = sizeof T meta_union;
          o2 = (if LOW_POWER_LISTENING \<in> D
                then pad_to (align_of_name T ''lpl_metadata_t'') o1 + size_of_name T ''lpl_metadata_t''
                else o1);
          o3 = pad_to (align_of_name T ''timestamp_metadata_t'') o2
                 + size_of_name T ''timestamp_metadata_t'';
          o4 = (if PACKET_LINK \<in> D
                then pad_to (align_of_name T ''link_metadata_t'') o3 + size_of_name T ''link_metadata_t''
                else o3)
      in [(''cc2520_meta'', 0, TypeName ''cc2520_metadata_t''),
          (''serial_meta'', 0, TypeName ''serial_metadata_t'')]
         @ (if LOW_POWER_LISTENING \<in> D
            then [(''lpl_meta'', pad_to (align_of_name T ''lpl_metadata_t'') o1,
                   TypeName ''lpl_metadata_t'')] else [])
         @ [(''ts_meta'', pad_to (align_of_name T ''timestamp_metadata_t'') o2,
             TypeName ''timestamp_metadata_t'')]
         @ (if PACKET_LINK \<in> D
            then [(''link_meta'', pad_to (align_of_name T ''link_metadata_t'') o3,
                   TypeName ''link_metadata_t'')] else [])
         @ [(''flags_meta'', pad_to (align_of_name T ''flags_metadata_t'') o4,
             TypeName ''flags_metadata_t'')])"
  by (simp add: message_metadata_def meta_union_def Let_def pad_to_zero)


lemma sizeof_meta_union:
  "sizeof T meta_union =
     pad_to (max (align_of_name T ''cc2520_metadata_t'') (max (align_of_name T ''serial_metadata_t'') 1))
       (max (size_of_name T ''cc2520_metadata_t'') (size_of_name T ''serial_metadata_t''))"
  by (simp add: meta_union_def)

lemma meta_union_le_metadata: "sizeof T meta_union \<le> sizeof T (message_metadata D)"
proof -
  have "sizeof T meta_union
          \<le> sum_list (map (\<lambda>f. sizeof T (snd f)) (field_decls (message_metadata D)))"
    by (simp add: message_metadata_def)
  also have "\<dots> \<le> sizeof T (StructT (Some ''message_metadata'') (field_decls (message_metadata D)))"
    by (rule sizeof_struct_ge_sum)
  also have "StructT (Some ''message_metadata'') (field_decls (message_metadata D)) = message_metadata D"
    by (simp add: message_metadata_def)
  finally show ?thesis .
qed

lemma metadata_struct_end:
  "struct_end 0 (map (\<lambda>f. (sizeof T (snd f), alignof T (snd f))) (field_decls (message_metadata D))) =
     (let o1 = sizeof T meta_union;
          o2 = (if LOW_POWER_LISTENING \<in> D
                then pad_to (align_of_name T ''lpl_metadata_t'') o1 + size_of_name T ''lpl_metadata_t''
                else o1);
          o3 = pad_to (align_of_name T ''timestamp_metadata_t'') o2
                 + size_of_name T ''timestamp_metadata_t'';
          o4 = (if PACKET_LINK \<in> D
                then pad_to (align_of_name T ''link_metadata_t'') o3 + size_of_name T ''link_metadata_t''
                else o3)
      in pad_to (align_of_name T ''flags_metadata_t'') o4 + size_of_name T ''flags_metadata_t'')"
  by (simp add: message_metadata_def Let_def pad_to_zero)

lemma metadata_end_le_sizeof:
  "struct_end 0 (map (\<lambda>f. (sizeof T (snd f), alignof T (snd f))) (field_decls (message_metadata D)))
     \<le> sizeof T (message_metadata D)"
  by (simp add: message_metadata_def le_pad_to)

lemma union_member_bounds:
  assumes "map_of (members T (message_metadata D)) m = Some (off, u)"
      and "m \<in> {''cc2520_meta'', ''serial_meta''}"
  shows "off = 0 \<and> sizeof T u \<le> sizeof T meta_union"
  using assms
  by (auto simp add: members_message_metadata Let_def sizeof_meta_union le_pad_to)

lemma other_member_bounds:
  assumes "map_of (members T (message_metadata D)) m = Some (off, u)"
      and "m \<notin> {''cc2520_meta'', ''serial_meta''}"
  shows "sizeof T meta_union \<le> off \<and> off + sizeof T u \<le> sizeof T (message_metadata D)"
proof -
  have "sizeof T meta_union \<le> off \<and> off + sizeof T u \<le>
      struct_end 0 (map (\<lambda>f. (sizeof T (snd f), alignof T (snd f))) (field_decls (message_metadata D)))"
    using assms
    by (auto simp add: members_message_metadata metadata_struct_end Let_def
          le_pad_to trans_le_add1 split: if_splits)
  with metadata_end_le_sizeof [of T D] show ?thesis
    by simp
qed

lemma lookup_union_members:
  "map_of (members T (message_metadata D)) ''cc2520_meta'' = Some (0, TypeName ''cc2520_metadata_t'')"
  "map_of (members T (message_metadata D)) ''serial_meta'' = Some (0, TypeName ''serial_metadata_t'')"
  by (simp_all add: members_message_metadata Let_def)

lemma union_members_fit:
  "size_of_name T ''cc2520_metadata_t'' \<le> sizeof T (message_metadata D)"
  "size_of_name T ''serial_metadata_t'' \<le> sizeof T (message_metadata D)"
proof -
  have "size_of_name T ''cc2520_metadata_t'' \<le> sizeof T meta_union"
    by (simp add: sizeof_meta_union le_pad_to)
  then show "size_of_name T ''cc2520_metadata_t'' \<le> sizeof T (message_metadata D)"
    using meta_union_le_metadata [of T D] by (rule order_trans)
  have "size_of_name T ''serial_metadata_t'' \<le> sizeof T meta_union"
    by (simp add: sizeof_meta_union le_pad_to)
  then show "size_of_name T ''serial_metadata_t'' \<le> sizeof T (message_metadata D)"
    using meta_union_le_metadata [of T D] by (rule order_trans)
qed

lemma lookup_present:
  "\<exists>off. map_of (members T (message_metadata D)) ''ts_meta'' = Some (off, TypeName ''timestamp_metadata_t'')"
  "\<exists>off. map_of (members T (message_metadata D)) ''flags_meta'' = Some (off, TypeName ''flags_metadata_t'')"
  by (simp_all add: members_message_metadata Let_def)

lemma frame_union_write:
  assumes len: "length obj = sizeof T (message_metadata D)"
      and m: "map_of (members T (message_metadata D)) m = Some (off, u)"
             "m \<in> {''cc2520_meta'', ''serial_meta''}"
      and m': "m' \<notin> {''cc2520_meta'', ''serial_meta''}"
      and v: "length v = sizeof T u"
  shows "Option.bind (write_member T (message_metadata D) m v obj)
           (read_member T (message_metadata D) m') =
         read_member T (message_metadata D) m' obj"
proof (cases "map_of (members T (message_metadata D)) m'")
  case None
  then show ?thesis by (rule write_then_read_absent)
next
  case (Some p)
  obtain off' u' where p: "p = (off', u')" by (cases p)
  from union_member_bounds [OF m] have b: "off = 0" "sizeof T u \<le> sizeof T meta_union"
    by simp_all
  from other_member_bounds [OF Some [unfolded p] m']
  have b': "sizeof T meta_union \<le> off'" "off' + sizeof T u' \<le> sizeof T (message_metadata D)"
    by simp_all
  show ?thesis
  proof (rule write_then_read_other [OF m(1) Some [unfolded p] _ _ len v])
    show "off + sizeof T u \<le> off' \<or> off' + sizeof T u' \<le> off"
      using b b' by simp
    show "off + sizeof T u \<le> sizeof T (message_metadata D)"
      using b b' by simp
  qed
qed

lemma frame_other_write:
  assumes len: "length obj = sizeof T (message_metadata D)"
      and m: "map_of (members T (message_metadata D)) m = Some (off, u)"
             "m \<in> {''cc2520_meta'', ''serial_meta''}"
      and m': "map_of (members T (message_metadata D)) m' = Some (off', u')"
              "m' \<notin> {''cc2520_meta'', ''serial_meta''}"
      and w: "length w = sizeof T u'"
  shows "Option.bind (write_member T (message_metadata D) m' w obj)
           (read_member T (message_metadata D) m) =
         read_member T (message_metadata D) m obj"
proof -
  from union_member_bounds [OF m] have b: "off = 0" "sizeof T u \<le> sizeof T meta_union"
    by simp_all
  from other_member_bounds [OF m']
  have b': "sizeof T meta_union \<le> off'" "off' + sizeof T u' \<le> sizeof T (message_metadata D)"
    by simp_all
  show ?thesis
  proof (rule write_then_read_other [OF m'(1) m(1) _ _ len w])
    show "off' + sizeof T u' \<le> off \<or> off + sizeof T u \<le> off'"
      using b b' by simp
    show "off' + sizeof T u' \<le> sizeof T (message_metadata D)"
      using b' by simp
  qed
qed

lemma field_decls_message_metadata:
  "field_decls (message_metadata D) =
     [(None, meta_union)]
     @ (if LOW_POWER_LISTENING \<in> D
        then [(Some ''lpl_meta'', TypeName ''lpl_metadata_t'')] else [])
     @ [(Some ''ts_meta'', TypeName ''timestamp_metadata_t'')]
     @ (if PACKET_LINK \<in> D
        then [(Some ''link_meta'', TypeName ''link_metadata_t'')] else [])
     @ [(Some ''flags_meta'', TypeName ''flags_metadata_t'')]"
  by (simp add: message_metadata_def)

section \<open>The claims\<close>

text \<open>
  Claim C1. \<^verbatim>\<open>message_metadata_t\<close> is a struct. Its first member is the anonymous union of
  \<^verbatim>\<open>cc2520_metadata_t cc2520_meta\<close> and \<^verbatim>\<open>serial_metadata_t serial_meta\<close>; \<^verbatim>\<open>lpl_meta\<close> is a member
  exactly when \<^verbatim>\<open>LOW_POWER_LISTENING\<close> is defined, \<^verbatim>\<open>link_meta\<close> exactly when \<^verbatim>\<open>PACKET_LINK\<close> is
  defined, \<^verbatim>\<open>ts_meta\<close> and \<^verbatim>\<open>flags_meta\<close> always; the members stand in the order union,
  \<^verbatim>\<open>lpl_meta\<close>, \<^verbatim>\<open>ts_meta\<close>, \<^verbatim>\<open>link_meta\<close>, \<^verbatim>\<open>flags_meta\<close>, for every set \<open>D\<close> of defined macros.
\<close>

theorem message_metadata_composition:
  "is_struct (message_metadata D) \<and>
   hd (field_decls (message_metadata D)) =
     (None, UnionT None [(Some ''cc2520_meta'', TypeName ''cc2520_metadata_t''),
                         (Some ''serial_meta'', TypeName ''serial_metadata_t'')]) \<and>
   ((Some ''lpl_meta'', TypeName ''lpl_metadata_t'') \<in> set (field_decls (message_metadata D))
      \<longleftrightarrow> LOW_POWER_LISTENING \<in> D) \<and>
   (Some ''ts_meta'', TypeName ''timestamp_metadata_t'') \<in> set (field_decls (message_metadata D)) \<and>
   ((Some ''link_meta'', TypeName ''link_metadata_t'') \<in> set (field_decls (message_metadata D))
      \<longleftrightarrow> PACKET_LINK \<in> D) \<and>
   (Some ''flags_meta'', TypeName ''flags_metadata_t'') \<in> set (field_decls (message_metadata D)) \<and>
   map fst (field_decls (message_metadata D)) =
     filter (\<lambda>n. (n = Some ''lpl_meta'' \<longrightarrow> LOW_POWER_LISTENING \<in> D) \<and>
                  (n = Some ''link_meta'' \<longrightarrow> PACKET_LINK \<in> D))
       [None, Some ''lpl_meta'', Some ''ts_meta'', Some ''link_meta'', Some ''flags_meta'']"
  by (simp add: field_decls_message_metadata meta_union_def) (simp add: message_metadata_def)

theorem message_metadata_composition_witness:
  "map fst (field_decls (message_metadata {LOW_POWER_LISTENING})) =
     [None, Some ''lpl_meta'', Some ''ts_meta'', Some ''flags_meta''] \<and>
   map fst (field_decls (message_metadata {PACKET_LINK})) =
     [None, Some ''ts_meta'', Some ''link_meta'', Some ''flags_meta''] \<and>
   map fst (field_decls (message_metadata {})) =
     [None, Some ''ts_meta'', Some ''flags_meta''] \<and>
   map fst (field_decls (message_metadata {LOW_POWER_LISTENING, PACKET_LINK})) =
     [None, Some ''lpl_meta'', Some ''ts_meta'', Some ''link_meta'', Some ''flags_meta'']"
  using message_metadata_composition [of "{LOW_POWER_LISTENING}"]
        message_metadata_composition [of "{PACKET_LINK}"]
        message_metadata_composition [of "{}"]
        message_metadata_composition [of "{LOW_POWER_LISTENING, PACKET_LINK}"]
  by simp

text \<open>
  Claim C2 says that each of \<^verbatim>\<open>lpl_meta\<close>, \<^verbatim>\<open>ts_meta\<close>, \<^verbatim>\<open>link_meta\<close> and \<^verbatim>\<open>flags_meta\<close> has a
  feature flag without which it is absent. With no macro defined at all, \<^verbatim>\<open>ts_meta\<close> and
  \<^verbatim>\<open>flags_meta\<close> are members all the same.
\<close>

theorem feature_gating_counterexample:
  "(Some ''ts_meta'', TypeName ''timestamp_metadata_t'') \<in> set (field_decls (message_metadata {})) \<and>
   (Some ''flags_meta'', TypeName ''flags_metadata_t'') \<in> set (field_decls (message_metadata {}))"
  by (simp add: message_metadata_def)

text \<open>
  Claim C2, amended. \<^verbatim>\<open>lpl_meta\<close> is absent when \<^verbatim>\<open>LOW_POWER_LISTENING\<close> is undefined and
  \<^verbatim>\<open>link_meta\<close> is absent when \<^verbatim>\<open>PACKET_LINK\<close> is undefined; \<^verbatim>\<open>ts_meta\<close> and \<^verbatim>\<open>flags_meta\<close> are
  members whatever is defined.
\<close>

theorem feature_gating:
  "(LOW_POWER_LISTENING \<notin> D \<longrightarrow>
      (Some ''lpl_meta'', TypeName ''lpl_metadata_t'') \<notin> set (field_decls (message_metadata D))) \<and>
   (PACKET_LINK \<notin> D \<longrightarrow>
      (Some ''link_meta'', TypeName ''link_metadata_t'') \<notin> set (field_decls (message_metadata D))) \<and>
   (Some ''ts_meta'', TypeName ''timestamp_metadata_t'') \<in> set (field_decls (message_metadata D)) \<and>
   (Some ''flags_meta'', TypeName ''flags_metadata_t'') \<in> set (field_decls (message_metadata D))"
  by (simp add: field_decls_message_metadata meta_union_def)

theorem feature_gating_witness:
  "(Some ''lpl_meta'', TypeName ''lpl_metadata_t'') \<notin> set (field_decls (message_metadata {PACKET_LINK})) \<and>
   (Some ''link_meta'', TypeName ''link_metadata_t'') \<notin> set (field_decls (message_metadata {LOW_POWER_LISTENING})) \<and>
   (Some ''ts_meta'', TypeName ''timestamp_metadata_t'') \<in> set (field_decls (message_metadata {PACKET_LINK})) \<and>
   (Some ''flags_meta'', TypeName ''flags_metadata_t'') \<in> set (field_decls (message_metadata {PACKET_LINK}))"
  using feature_gating [of "{PACKET_LINK}"] feature_gating [of "{LOW_POWER_LISTENING}"]
  by simp

text \<open>
  Claim C3. \<^verbatim>\<open>message_header_t\<close> is a union of exactly two members, \<^verbatim>\<open>cc2520\<close> of type
  \<^verbatim>\<open>cc2520packet_header_t\<close> and \<^verbatim>\<open>serial\<close> of type \<^verbatim>\<open>serial_header_t\<close>, both at offset 0. Its size
  is the larger of the two members' sizes padded to the union's alignment: at least the
  larger size on every target, and equal to it wherever the alignment divides it (as it
  does for byte-packed members).
\<close>

theorem message_header_union:
  "is_union message_header \<and>
   field_decls message_header =
     [(Some ''cc2520'', TypeName ''cc2520packet_header_t''),
      (Some ''serial'', TypeName ''serial_header_t'')] \<and>
   members T message_header =
     [(''cc2520'', 0, TypeName ''cc2520packet_header_t''),
      (''serial'', 0, TypeName ''serial_header_t'')] \<and>
   max (size_of_name T ''cc2520packet_header_t'') (size_of_name T ''serial_header_t'')
     \<le> sizeof T message_header \<and>
   sizeof T message_header =
     pad_to (alignof T message_header)
       (max (size_of_name T ''cc2520packet_header_t'') (size_of_name T ''serial_header_t'')) \<and>
   (alignof T message_header dvd
      max (size_of_name T ''cc2520packet_header_t'') (size_of_name T ''serial_header_t'') \<longrightarrow>
    sizeof T message_header =
      max (size_of_name T ''cc2520packet_header_t'') (size_of_name T ''serial_header_t''))"
proof -
  have sz: "sizeof T message_header =
     pad_to (alignof T message_header)
       (max (size_of_name T ''cc2520packet_header_t'') (size_of_name T ''serial_header_t''))"
    by (simp add: message_header_def)
  show ?thesis
    by (simp add: sz pad_to_ge pad_to_dvd members_message_header) (simp add: message_header_def)
qed

theorem message_header_union_witness:
  "alignof example_target message_header dvd
     max (size_of_name example_target ''cc2520packet_header_t'')
         (size_of_name example_target ''serial_header_t'') \<and>
   sizeof example_target message_header = 11"
  using message_header_union [of example_target]
  by (simp add: example_target_def message_header_def)

text \<open>
  Claim C4. On every target and under every set of defined macros, \<^verbatim>\<open>message_header_t\<close> is
  at least as large as each of its two members, \<^verbatim>\<open>message_footer_t\<close> at least as large as
  its member, the anonymous union of \<^verbatim>\<open>message_metadata_t\<close> at least as large as each of its
  two members, and \<^verbatim>\<open>message_metadata_t\<close> at least as large as the sum of the sizes of the
  members it has under those macros.
\<close>

theorem exported_sizes:
  "size_of_name T ''cc2520packet_header_t'' \<le> sizeof T message_header \<and>
   size_of_name T ''serial_header_t'' \<le> sizeof T message_header \<and>
   size_of_name T ''cc2520packet_footer_t'' \<le> sizeof T message_footer \<and>
   size_of_name T ''cc2520_metadata_t'' \<le> sizeof T (snd (hd (field_decls (message_metadata D)))) \<and>
   size_of_name T ''serial_metadata_t'' \<le> sizeof T (snd (hd (field_decls (message_metadata D)))) \<and>
   sum_list (map (\<lambda>f. sizeof T (snd f)) (field_decls (message_metadata D)))
     \<le> sizeof T (message_metadata D) \<and>
   sizeof T (snd (hd (field_decls (message_metadata D))))
     + (if LOW_POWER_LISTENING \<in> D then size_of_name T ''lpl_metadata_t'' else 0)
     + size_of_name T ''timestamp_metadata_t''
     + (if PACKET_LINK \<in> D then size_of_name T ''link_metadata_t'' else 0)
     + size_of_name T ''flags_metadata_t''
     \<le> sizeof T (message_metadata D)"
proof -
  have h: "size_of_name T ''cc2520packet_header_t'' \<le> sizeof T message_header \<and>
           size_of_name T ''serial_header_t'' \<le> sizeof T message_header"
    using sizeof_union_ge_member [of "(Some ''cc2520'', TypeName ''cc2520packet_header_t'')" _ T]
          sizeof_union_ge_member [of "(Some ''serial'', TypeName ''serial_header_t'')" _ T]
    by (simp add: message_header_def del: sizeof.simps(2))
  have f: "size_of_name T ''cc2520packet_footer_t'' \<le> sizeof T message_footer"
    using sizeof_union_ge_member [of "(Some ''cc2520'', TypeName ''cc2520packet_footer_t'')" _ T]
    by (simp add: message_footer_def del: sizeof.simps(2))
  have hd: "snd (hd (field_decls (message_metadata D))) = meta_union"
    by (simp add: message_metadata_def)
  have u: "size_of_name T ''cc2520_metadata_t'' \<le> sizeof T meta_union \<and>
           size_of_name T ''serial_metadata_t'' \<le> sizeof T meta_union"
    by (simp add: sizeof_meta_union le_pad_to)
  have s: "sum_list (map (\<lambda>f. sizeof T (snd f)) (field_decls (message_metadata D)))
             \<le> sizeof T (message_metadata D)"
    using sizeof_struct_ge_sum [of T "field_decls (message_metadata D)" "Some ''message_metadata''"]
    by (simp add: message_metadata_def del: sizeof.simps(3))
  have e: "sum_list (map (\<lambda>f. sizeof T (snd f)) (field_decls (message_metadata D))) =
      sizeof T meta_union
     + (if LOW_POWER_LISTENING \<in> D then size_of_name T ''lpl_metadata_t'' else 0)
     + size_of_name T ''timestamp_metadata_t''
     + (if PACKET_LINK \<in> D then size_of_name T ''link_metadata_t'' else 0)
     + size_of_name T ''flags_metadata_t''"
    by (simp add: message_metadata_def)
  from h f u s show ?thesis
    unfolding hd using e by simp
qed

theorem exported_sizes_witness:
  "sum_list (map (\<lambda>f. sizeof example_target (snd f))
      (field_decls (message_metadata {LOW_POWER_LISTENING, PACKET_LINK}))) = 14 \<and>
   sizeof example_target (message_metadata {LOW_POWER_LISTENING, PACKET_LINK}) = 16 \<and>
   sizeof example_target (message_metadata {}) = 10 \<and>
   sizeof example_target message_header = 11 \<and>
   sizeof example_target message_footer = 0"
proof -
  have a: "sum_list (map (\<lambda>f. sizeof example_target (snd f))
      (field_decls (message_metadata {LOW_POWER_LISTENING, PACKET_LINK}))) = 14"
    by code_simp
  have b: "sizeof example_target (message_metadata {LOW_POWER_LISTENING, PACKET_LINK}) = 16"
    by code_simp
  have c: "sizeof example_target (message_metadata {}) = 10"
    by code_simp
  have d: "sizeof example_target message_header = 11"
    by code_simp
  have e: "sizeof example_target message_footer = 0"
    by code_simp
  show ?thesis
    using exported_sizes [of example_target "{LOW_POWER_LISTENING, PACKET_LINK}"] a b c d e
    by simp
qed

text \<open>
  Claim C5. \<^verbatim>\<open>message_footer_t\<close> is a union with exactly one member, \<^verbatim>\<open>cc2520\<close> of type
  \<^verbatim>\<open>cc2520packet_footer_t\<close>; it has no member \<^verbatim>\<open>serial\<close>.
\<close>

theorem message_footer_single_member:
  "is_union message_footer \<and>
   field_decls message_footer = [(Some ''cc2520'', TypeName ''cc2520packet_footer_t'')] \<and>
   length (field_decls message_footer) = 1 \<and>
   map fst (members T message_footer) = [''cc2520''] \<and>
   map_of (members T message_footer) ''serial'' = None"
  by (simp add: message_footer_def)

text \<open>
  Claim C6. Neither union has a discriminant. \<^verbatim>\<open>message_header_t\<close> is a union whose
  members are exactly \<^verbatim>\<open>cc2520\<close> and \<^verbatim>\<open>serial\<close>, both at offset 0, and whose size is the larger
  payload padded to the alignment; the first member of \<^verbatim>\<open>message_metadata_t\<close> is an anonymous
  union whose members are exactly \<^verbatim>\<open>cc2520_meta\<close> and \<^verbatim>\<open>serial_meta\<close>, both at offset 0. An
  object of the header type reads through either member, whichever was stored, and the
  file adds no declaration other than type definitions to the translation unit, so nothing
  in it inspects the active member.
\<close>

theorem no_discriminant:
  "is_union message_header \<and>
   members T message_header =
     [(''cc2520'', 0, TypeName ''cc2520packet_header_t''),
      (''serial'', 0, TypeName ''serial_header_t'')] \<and>
   is_union (snd (hd (field_decls (message_metadata D)))) \<and>
   fst (hd (field_decls (message_metadata D))) = None \<and>
   members T (snd (hd (field_decls (message_metadata D)))) =
     [(''cc2520_meta'', 0, TypeName ''cc2520_metadata_t''),
      (''serial_meta'', 0, TypeName ''serial_metadata_t'')] \<and>
   sizeof T message_header =
     pad_to (alignof T message_header)
       (max (size_of_name T ''cc2520packet_header_t'') (size_of_name T ''serial_header_t'')) \<and>
   (length obj = sizeof T message_header \<longrightarrow>
      read_member T message_header ''cc2520'' obj =
        Some (take (size_of_name T ''cc2520packet_header_t'') obj) \<and>
      read_member T message_header ''serial'' obj =
        Some (take (size_of_name T ''serial_header_t'') obj)) \<and>
   filter (\<lambda>d. \<not> is_typedef d) (decls (platform_message_h Serial_h CC2520Radio_h s)) =
     filter (\<lambda>d. \<not> is_typedef d)
       (decls (if PLATFORM_MESSAGE_H \<in> macros s then s
               else CC2520Radio_h (Serial_h (s\<lparr>macros := insert PLATFORM_MESSAGE_H (macros s)\<rparr>))))"
proof -
  have u: "snd (hd (field_decls (message_metadata D))) = meta_union"
          "fst (hd (field_decls (message_metadata D))) = None"
    by (simp_all add: message_metadata_def)
  have mu: "is_union meta_union"
           "members T meta_union =
              [(''cc2520_meta'', 0, TypeName ''cc2520_metadata_t''),
               (''serial_meta'', 0, TypeName ''serial_metadata_t'')]"
    by (simp_all add: meta_union_def)
  have h: "is_union message_header"
          "sizeof T message_header =
             pad_to (alignof T message_header)
               (max (size_of_name T ''cc2520packet_header_t'') (size_of_name T ''serial_header_t''))"
    by (simp_all add: message_header_def)
  have r: "length obj = sizeof T message_header \<Longrightarrow>
      read_member T message_header ''cc2520'' obj =
        Some (take (size_of_name T ''cc2520packet_header_t'') obj) \<and>
      read_member T message_header ''serial'' obj =
        Some (take (size_of_name T ''serial_header_t'') obj)"
    by (simp add: read_member_def members_message_header)
  have d: "filter (\<lambda>d. \<not> is_typedef d) (decls (platform_message_h Serial_h CC2520Radio_h s)) =
     filter (\<lambda>d. \<not> is_typedef d)
       (decls (if PLATFORM_MESSAGE_H \<in> macros s then s
               else CC2520Radio_h (Serial_h (s\<lparr>macros := insert PLATFORM_MESSAGE_H (macros s)\<rparr>))))"
    by (simp add: platform_message_h_def Let_def)
  from u mu h r d members_message_header [of T] show ?thesis
    by simp
qed

theorem no_discriminant_witness:
  "length [1, 2, 3, 4, 5, 6, 7, 8, 9, 10, 11 :: byte] = sizeof example_target message_header \<and>
   read_member example_target message_header ''cc2520'' [1, 2, 3, 4, 5, 6, 7, 8, 9, 10, 11] =
     Some [1, 2, 3, 4, 5, 6, 7, 8, 9, 10, 11] \<and>
   read_member example_target message_header ''serial'' [1, 2, 3, 4, 5, 6, 7, 8, 9, 10, 11] =
     Some [1, 2, 3, 4, 5, 6, 7]"
proof -
  have a: "length [1, 2, 3, 4, 5, 6, 7, 8, 9, 10, 11 :: byte] = sizeof example_target message_header"
    by code_simp
  have b: "size_of_name example_target ''cc2520packet_header_t'' = 11"
          "size_of_name example_target ''serial_header_t'' = 7"
    by (simp_all add: example_target_def)
  from no_discriminant [of example_target "{}" "[1, 2, 3, 4, 5, 6, 7, 8, 9, 10, 11]"] a
  have "read_member example_target message_header ''cc2520'' [1, 2, 3, 4, 5, 6, 7, 8, 9, 10, 11] =
          Some (take (size_of_name example_target ''cc2520packet_header_t'')
                  [1, 2, 3, 4, 5, 6, 7, 8, 9, 10, 11]) \<and>
        read_member example_target message_header ''serial'' [1, 2, 3, 4, 5, 6, 7, 8, 9, 10, 11] =
          Some (take (size_of_name example_target ''serial_header_t'')
                  [1, 2, 3, 4, 5, 6, 7, 8, 9, 10, 11])"
    by blast
  with a show ?thesis
    unfolding b by simp
qed

text \<open>
  Claim C7. The file contributes three type definitions and nothing else. With the guard
  defined it leaves the translation unit as it is. Otherwise, after the guard and the two
  includes, it appends the typedefs \<^verbatim>\<open>message_header_t\<close>, \<^verbatim>\<open>message_footer_t\<close> and
  \<^verbatim>\<open>message_metadata_t\<close>, in this order, no object and no function, and defines no macro but
  the guard.
\<close>

theorem platform_message_h_only_typedefs:
  "(PLATFORM_MESSAGE_H \<in> macros s \<longrightarrow> platform_message_h Serial_h CC2520Radio_h s = s) \<and>
   (PLATFORM_MESSAGE_H \<notin> macros s \<longrightarrow>
      (\<exists>ds. decls (platform_message_h Serial_h CC2520Radio_h s) =
               decls (CC2520Radio_h (Serial_h (s\<lparr>macros := insert PLATFORM_MESSAGE_H (macros s)\<rparr>))) @ ds \<and>
            map decl_name ds = [''message_header_t'', ''message_footer_t'', ''message_metadata_t''] \<and>
            list_all is_typedef ds) \<and>
      macros (platform_message_h Serial_h CC2520Radio_h s) =
        macros (CC2520Radio_h (Serial_h (s\<lparr>macros := insert PLATFORM_MESSAGE_H (macros s)\<rparr>))))"
  by (simp add: platform_message_h_def Let_def)

theorem platform_message_h_only_typedefs_witness:
  "map decl_name (decls (platform_message_h (\<lambda>s. s) (\<lambda>s. s) \<lparr>macros = {}, decls = []\<rparr>)) =
     [''message_header_t'', ''message_footer_t'', ''message_metadata_t''] \<and>
   list_all is_typedef (decls (platform_message_h (\<lambda>s. s) (\<lambda>s. s) \<lparr>macros = {}, decls = []\<rparr>)) \<and>
   platform_message_h (\<lambda>s. s) (\<lambda>s. s) \<lparr>macros = {PLATFORM_MESSAGE_H}, decls = []\<rparr> =
     \<lparr>macros = {PLATFORM_MESSAGE_H}, decls = []\<rparr>"
  using platform_message_h_only_typedefs [of "\<lparr>macros = {}, decls = []\<rparr>" "\<lambda>s. s" "\<lambda>s. s"]
        platform_message_h_only_typedefs [of "\<lparr>macros = {PLATFORM_MESSAGE_H}, decls = []\<rparr>" "\<lambda>s. s" "\<lambda>s. s"]
  by auto

text \<open>
  Claim C8. In an object of type \<^verbatim>\<open>message_metadata_t\<close>, under every set of defined macros and
  on every target, assigning to \<^verbatim>\<open>cc2520_meta\<close> or to \<^verbatim>\<open>serial_meta\<close> leaves what \<^verbatim>\<open>lpl_meta\<close>,
  \<^verbatim>\<open>ts_meta\<close>, \<^verbatim>\<open>link_meta\<close> and \<^verbatim>\<open>flags_meta\<close> read as it was (a member that is not compiled in
  reads as nothing before and after), and assigning to \<^verbatim>\<open>ts_meta\<close> or to \<^verbatim>\<open>flags_meta\<close> leaves
  what \<^verbatim>\<open>cc2520_meta\<close> and \<^verbatim>\<open>serial_meta\<close> read as it was. The four members that are always
  compiled in can be read in every object of the type.
\<close>

theorem meta_union_frame:
  assumes "length obj = sizeof T (message_metadata D)"
      and "m' \<in> {''lpl_meta'', ''ts_meta'', ''link_meta'', ''flags_meta''}"
  shows
   "(length v = size_of_name T ''cc2520_metadata_t'' \<longrightarrow>
       Option.bind (write_member T (message_metadata D) ''cc2520_meta'' v obj)
         (read_member T (message_metadata D) m') = read_member T (message_metadata D) m' obj) \<and>
    (length v = size_of_name T ''serial_metadata_t'' \<longrightarrow>
       Option.bind (write_member T (message_metadata D) ''serial_meta'' v obj)
         (read_member T (message_metadata D) m') = read_member T (message_metadata D) m' obj) \<and>
    (length w = size_of_name T ''timestamp_metadata_t'' \<longrightarrow>
       Option.bind (write_member T (message_metadata D) ''ts_meta'' w obj)
         (read_member T (message_metadata D) ''cc2520_meta'') =
         read_member T (message_metadata D) ''cc2520_meta'' obj \<and>
       Option.bind (write_member T (message_metadata D) ''ts_meta'' w obj)
         (read_member T (message_metadata D) ''serial_meta'') =
         read_member T (message_metadata D) ''serial_meta'' obj) \<and>
    (length w = size_of_name T ''flags_metadata_t'' \<longrightarrow>
       Option.bind (write_member T (message_metadata D) ''flags_meta'' w obj)
         (read_member T (message_metadata D) ''cc2520_meta'') =
         read_member T (message_metadata D) ''cc2520_meta'' obj \<and>
       Option.bind (write_member T (message_metadata D) ''flags_meta'' w obj)
         (read_member T (message_metadata D) ''serial_meta'') =
         read_member T (message_metadata D) ''serial_meta'' obj) \<and>
    read_member T (message_metadata D) ''cc2520_meta'' obj =
      Some (take (size_of_name T ''cc2520_metadata_t'') obj) \<and>
    read_member T (message_metadata D) ''serial_meta'' obj =
      Some (take (size_of_name T ''serial_metadata_t'') obj) \<and>
    read_member T (message_metadata D) ''ts_meta'' obj \<noteq> None \<and>
    read_member T (message_metadata D) ''flags_meta'' obj \<noteq> None"
proof -
  note len = assms(1)
  have other: "m' \<notin> {''cc2520_meta'', ''serial_meta''}"
    using assms(2) by auto
  obtain ots where ots: "map_of (members T (message_metadata D)) ''ts_meta'' =
      Some (ots, TypeName ''timestamp_metadata_t'')"
    using lookup_present(1) by blast
  obtain ofl where ofl: "map_of (members T (message_metadata D)) ''flags_meta'' =
      Some (ofl, TypeName ''flags_metadata_t'')"
    using lookup_present(2) by blast
  have c1: "length v = size_of_name T ''cc2520_metadata_t'' \<Longrightarrow>
       Option.bind (write_member T (message_metadata D) ''cc2520_meta'' v obj)
         (read_member T (message_metadata D) m') = read_member T (message_metadata D) m' obj"
    by (rule frame_union_write [OF len lookup_union_members(1) _ other]) simp_all
  have c2: "length v = size_of_name T ''serial_metadata_t'' \<Longrightarrow>
       Option.bind (write_member T (message_metadata D) ''serial_meta'' v obj)
         (read_member T (message_metadata D) m') = read_member T (message_metadata D) m' obj"
    by (rule frame_union_write [OF len lookup_union_members(2) _ other]) simp_all
  have c3: "length w = size_of_name T ''timestamp_metadata_t'' \<Longrightarrow>
       Option.bind (write_member T (message_metadata D) ''ts_meta'' w obj)
         (read_member T (message_metadata D) ''cc2520_meta'') =
         read_member T (message_metadata D) ''cc2520_meta'' obj"
    by (rule frame_other_write [OF len lookup_union_members(1) _ ots]) simp_all
  have c4: "length w = size_of_name T ''timestamp_metadata_t'' \<Longrightarrow>
       Option.bind (write_member T (message_metadata D) ''ts_meta'' w obj)
         (read_member T (message_metadata D) ''serial_meta'') =
         read_member T (message_metadata D) ''serial_meta'' obj"
    by (rule frame_other_write [OF len lookup_union_members(2) _ ots]) simp_all
  have c5: "length w = size_of_name T ''flags_metadata_t'' \<Longrightarrow>
       Option.bind (write_member T (message_metadata D) ''flags_meta'' w obj)
         (read_member T (message_metadata D) ''cc2520_meta'') =
         read_member T (message_metadata D) ''cc2520_meta'' obj"
    by (rule frame_other_write [OF len lookup_union_members(1) _ ofl]) simp_all
  have c6: "length w = size_of_name T ''flags_metadata_t'' \<Longrightarrow>
       Option.bind (write_member T (message_metadata D) ''flags_meta'' w obj)
         (read_member T (message_metadata D) ''serial_meta'') =
         read_member T (message_metadata D) ''serial_meta'' obj"
    by (rule frame_other_write [OF len lookup_union_members(2) _ ofl]) simp_all
  have r: "read_member T (message_metadata D) ''cc2520_meta'' obj =
             Some (take (size_of_name T ''cc2520_metadata_t'') obj)"
          "read_member T (message_metadata D) ''serial_meta'' obj =
             Some (take (size_of_name T ''serial_metadata_t'') obj)"
          "read_member T (message_metadata D) ''ts_meta'' obj \<noteq> None"
          "read_member T (message_metadata D) ''flags_meta'' obj \<noteq> None"
    using len ots ofl by (simp_all add: read_member_def lookup_union_members)
  from c1 c2 c3 c4 c5 c6 r show ?thesis by blast
qed

theorem meta_union_frame_witness:
  "length [0, 1, 2, 3, 4, 5, 6, 7, 8, 9, 10, 11, 12, 13, 14, 15 :: byte] =
     sizeof example_target (message_metadata {LOW_POWER_LISTENING, PACKET_LINK}) \<and>
   length [170, 187, 204 :: byte] = size_of_name example_target ''cc2520_metadata_t'' \<and>
   write_member example_target (message_metadata {LOW_POWER_LISTENING, PACKET_LINK}) ''cc2520_meta''
     [170, 187, 204] [0, 1, 2, 3, 4, 5, 6, 7, 8, 9, 10, 11, 12, 13, 14, 15] =
     Some [170, 187, 204, 3, 4, 5, 6, 7, 8, 9, 10, 11, 12, 13, 14, 15] \<and>
   read_member example_target (message_metadata {LOW_POWER_LISTENING, PACKET_LINK}) ''ts_meta''
     [0, 1, 2, 3, 4, 5, 6, 7, 8, 9, 10, 11, 12, 13, 14, 15] = Some [6, 7, 8, 9] \<and>
   Option.bind
     (write_member example_target (message_metadata {LOW_POWER_LISTENING, PACKET_LINK}) ''cc2520_meta''
        [170, 187, 204] [0, 1, 2, 3, 4, 5, 6, 7, 8, 9, 10, 11, 12, 13, 14, 15])
     (read_member example_target (message_metadata {LOW_POWER_LISTENING, PACKET_LINK}) ''ts_meta'') =
     Some [6, 7, 8, 9]"
proof -
  let ?obj = "[0, 1, 2, 3, 4, 5, 6, 7, 8, 9, 10, 11, 12, 13, 14, 15 :: byte]"
  let ?t = "message_metadata {LOW_POWER_LISTENING, PACKET_LINK}"
  have a: "length ?obj = sizeof example_target ?t"
    by code_simp
  have b: "length [170, 187, 204 :: byte] = size_of_name example_target ''cc2520_metadata_t''"
    by code_simp
  have c: "write_member example_target ?t ''cc2520_meta'' [170, 187, 204] ?obj =
     Some [170, 187, 204, 3, 4, 5, 6, 7, 8, 9, 10, 11, 12, 13, 14, 15]"
    by code_simp
  have d: "read_member example_target ?t ''ts_meta'' ?obj = Some [6, 7, 8, 9]"
    by code_simp
  have e: "''ts_meta'' \<in> {''lpl_meta'', ''ts_meta'', ''link_meta'', ''flags_meta''}"
    by simp
  from meta_union_frame [OF a e, of "[170, 187, 204]" "[]"]
  have "length [170, 187, 204 :: byte] = size_of_name example_target ''cc2520_metadata_t'' \<longrightarrow>
      Option.bind (write_member example_target ?t ''cc2520_meta'' [170, 187, 204] ?obj)
        (read_member example_target ?t ''ts_meta'') =
      read_member example_target ?t ''ts_meta'' ?obj"
    by (rule conjunct1)
  with b d have f: "Option.bind (write_member example_target ?t ''cc2520_meta'' [170, 187, 204] ?obj)
        (read_member example_target ?t ''ts_meta'') = Some [6, 7, 8, 9]"
    by simp
  show ?thesis
    by (intro conjI a b c d f)
qed

text \<open>
  Claim C9. Assigning a value to a member of a union and reading the same member gives the
  value back: for \<^verbatim>\<open>cc2520\<close> and \<^verbatim>\<open>serial\<close> of \<^verbatim>\<open>message_header_t\<close>, for \<^verbatim>\<open>cc2520\<close> of
  \<^verbatim>\<open>message_footer_t\<close>, and for \<^verbatim>\<open>cc2520_meta\<close> and \<^verbatim>\<open>serial_meta\<close> of \<^verbatim>\<open>message_metadata_t\<close>,
  for every object of the type and every value of the member's size.
\<close>

theorem union_member_roundtrip:
  "(length obj = sizeof T message_header \<and> length v = size_of_name T ''cc2520packet_header_t'' \<longrightarrow>
      Option.bind (write_member T message_header ''cc2520'' v obj)
        (read_member T message_header ''cc2520'') = Some v) \<and>
   (length obj = sizeof T message_header \<and> length v = size_of_name T ''serial_header_t'' \<longrightarrow>
      Option.bind (write_member T message_header ''serial'' v obj)
        (read_member T message_header ''serial'') = Some v) \<and>
   (length obj = sizeof T message_footer \<and> length v = size_of_name T ''cc2520packet_footer_t'' \<longrightarrow>
      Option.bind (write_member T message_footer ''cc2520'' v obj)
        (read_member T message_footer ''cc2520'') = Some v) \<and>
   (length obj = sizeof T (message_metadata D) \<and> length v = size_of_name T ''cc2520_metadata_t'' \<longrightarrow>
      Option.bind (write_member T (message_metadata D) ''cc2520_meta'' v obj)
        (read_member T (message_metadata D) ''cc2520_meta'') = Some v) \<and>
   (length obj = sizeof T (message_metadata D) \<and> length v = size_of_name T ''serial_metadata_t'' \<longrightarrow>
      Option.bind (write_member T (message_metadata D) ''serial_meta'' v obj)
        (read_member T (message_metadata D) ''serial_meta'') = Some v)"
proof -
  have hs: "size_of_name T ''cc2520packet_header_t'' \<le> sizeof T message_header"
           "size_of_name T ''serial_header_t'' \<le> sizeof T message_header"
    by (simp_all add: message_header_def le_pad_to)
  have fs: "size_of_name T ''cc2520packet_footer_t'' \<le> sizeof T message_footer"
    by (simp add: message_footer_def le_pad_to)
  have h1: "length obj = sizeof T message_header \<Longrightarrow> length v = size_of_name T ''cc2520packet_header_t'' \<Longrightarrow>
      Option.bind (write_member T message_header ''cc2520'' v obj)
        (read_member T message_header ''cc2520'') = Some v"
    using hs by (intro write_then_read_same [where off = 0 and u = "TypeName ''cc2520packet_header_t''"])
      (simp_all add: members_message_header)
  have h2: "length obj = sizeof T message_header \<Longrightarrow> length v = size_of_name T ''serial_header_t'' \<Longrightarrow>
      Option.bind (write_member T message_header ''serial'' v obj)
        (read_member T message_header ''serial'') = Some v"
    using hs by (intro write_then_read_same [where off = 0 and u = "TypeName ''serial_header_t''"])
      (simp_all add: members_message_header)
  have f1: "length obj = sizeof T message_footer \<Longrightarrow> length v = size_of_name T ''cc2520packet_footer_t'' \<Longrightarrow>
      Option.bind (write_member T message_footer ''cc2520'' v obj)
        (read_member T message_footer ''cc2520'') = Some v"
    using fs by (intro write_then_read_same [where off = 0 and u = "TypeName ''cc2520packet_footer_t''"])
      (simp_all add: members_message_footer)
  have m1: "length obj = sizeof T (message_metadata D) \<Longrightarrow> length v = size_of_name T ''cc2520_metadata_t'' \<Longrightarrow>
      Option.bind (write_member T (message_metadata D) ''cc2520_meta'' v obj)
        (read_member T (message_metadata D) ''cc2520_meta'') = Some v"
    using union_members_fit [of T D]
    by (intro write_then_read_same [where off = 0 and u = "TypeName ''cc2520_metadata_t''"])
      (simp_all add: lookup_union_members)
  have m2: "length obj = sizeof T (message_metadata D) \<Longrightarrow> length v = size_of_name T ''serial_metadata_t'' \<Longrightarrow>
      Option.bind (write_member T (message_metadata D) ''serial_meta'' v obj)
        (read_member T (message_metadata D) ''serial_meta'') = Some v"
    using union_members_fit [of T D]
    by (intro write_then_read_same [where off = 0 and u = "TypeName ''serial_metadata_t''"])
      (simp_all add: lookup_union_members)
  from h1 h2 f1 m1 m2 show ?thesis by blast
qed

theorem union_member_roundtrip_witness:
  "length (replicate 11 (0::byte)) = sizeof example_target message_header \<and>
   length [1, 2, 3, 4, 5, 6, 7 :: byte] = size_of_name example_target ''serial_header_t'' \<and>
   Option.bind (write_member example_target message_header ''serial'' [1, 2, 3, 4, 5, 6, 7]
                  (replicate 11 0))
     (read_member example_target message_header ''serial'') = Some [1, 2, 3, 4, 5, 6, 7] \<and>
   write_member example_target message_header ''serial'' [1, 2, 3, 4, 5, 6, 7] (replicate 11 0) =
     Some [1, 2, 3, 4, 5, 6, 7, 0, 0, 0, 0]"
proof -
  have a: "length (replicate 11 (0::byte)) = sizeof example_target message_header"
    by code_simp
  have b: "length [1, 2, 3, 4, 5, 6, 7 :: byte] = size_of_name example_target ''serial_header_t''"
    by code_simp
  have c: "write_member example_target message_header ''serial'' [1, 2, 3, 4, 5, 6, 7] (replicate 11 0) =
     Some [1, 2, 3, 4, 5, 6, 7, 0, 0, 0, 0]"
    by code_simp
  show ?thesis
    using union_member_roundtrip [of "replicate 11 0" example_target "[1, 2, 3, 4, 5, 6, 7]"] a b c
    by simp
qed

text \<open>
  Claim C10. Including the file twice is including it once: after the first inclusion the
  guard is defined, and with the guard defined the file contributes nothing. The two
  collaborator headers are taken not to undefine the guard.
\<close>

theorem platform_message_h_idempotent:
  assumes "\<And>u. PLATFORM_MESSAGE_H \<in> macros u \<Longrightarrow> PLATFORM_MESSAGE_H \<in> macros (Serial_h u)"
      and "\<And>u. PLATFORM_MESSAGE_H \<in> macros u \<Longrightarrow> PLATFORM_MESSAGE_H \<in> macros (CC2520Radio_h u)"
  shows "PLATFORM_MESSAGE_H \<in> macros (platform_message_h Serial_h CC2520Radio_h s) \<and>
         platform_message_h Serial_h CC2520Radio_h (platform_message_h Serial_h CC2520Radio_h s) =
           platform_message_h Serial_h CC2520Radio_h s"
proof -
  have guard: "PLATFORM_MESSAGE_H \<in> macros (platform_message_h Serial_h CC2520Radio_h s)"
  proof (cases "PLATFORM_MESSAGE_H \<in> macros s")
    case True
    then show ?thesis by (simp add: platform_message_h_def)
  next
    case False
    have "PLATFORM_MESSAGE_H \<in> macros (s\<lparr>macros := insert PLATFORM_MESSAGE_H (macros s)\<rparr>)"
      by simp
    then have "PLATFORM_MESSAGE_H \<in>
        macros (CC2520Radio_h (Serial_h (s\<lparr>macros := insert PLATFORM_MESSAGE_H (macros s)\<rparr>)))"
      by (intro assms)
    with False show ?thesis
      by (simp add: platform_message_h_def Let_def)
  qed
  moreover have "\<And>u. PLATFORM_MESSAGE_H \<in> macros u \<Longrightarrow> platform_message_h Serial_h CC2520Radio_h u = u"
    by (simp add: platform_message_h_def)
  ultimately show ?thesis by simp
qed

theorem platform_message_h_idempotent_witness:
  "platform_message_h (example_include ''serial_header_t'') (example_include ''cc2520packet_header_t'')
     (platform_message_h (example_include ''serial_header_t'') (example_include ''cc2520packet_header_t'')
        \<lparr>macros = {}, decls = []\<rparr>) =
   platform_message_h (example_include ''serial_header_t'') (example_include ''cc2520packet_header_t'')
     \<lparr>macros = {}, decls = []\<rparr> \<and>
   map decl_name (decls (platform_message_h (example_include ''serial_header_t'')
      (example_include ''cc2520packet_header_t'')
      (platform_message_h (example_include ''serial_header_t'') (example_include ''cc2520packet_header_t'')
        \<lparr>macros = {}, decls = []\<rparr>))) =
     [''serial_header_t'', ''cc2520packet_header_t'',
      ''message_header_t'', ''message_footer_t'', ''message_metadata_t'']"
  using platform_message_h_idempotent [of "example_include ''serial_header_t''"
      "example_include ''cc2520packet_header_t''" "\<lparr>macros = {}, decls = []\<rparr>"]
  by (simp add: example_include_def platform_message_h_def)

end
